theory Spec2Isabelle
  imports Main "HOL-Library.Word" "HOL-Library.AList"
begin

section \<open>The handle registry of the replication agent (pkg/db/db_pool.go)\<close>

text \<open>
  The pool keeps a Go map from store identifiers (\<open>int32\<close>) to handles and the
  identifier of the one metadata store. The model is single-threaded: the embedded
  \<open>sync.RWMutex\<close> is taken and released by every method and is left out.
  Pointer arguments supplied by a caller (\<open>*pb.DBInfo\<close>, \<open>*pb.BlockInfo\<close>,
  \<open>*pb.BatchItem\<close>, the \<open>Batch\<close> inside a \<open>BatchWithID\<close>) are taken to be
  non-nil. The \<open>DB\<close> interface value stored in a handle may be nil: it is nil in the
  zero value that Go's map index yields for a missing key.
\<close>

subsection \<open>Values\<close>

type_synonym int32 = "32 word"
type_synonym int64 = "64 word"
type_synonym bytes = "8 word list"

text \<open>\<open>math.MinInt32\<close>, the value of \<open>metaDBID\<close> that means "none designated".\<close>

definition MinInt32 :: int32 where
  "MinInt32 = - (2 ^ 31)"

text \<open>
  Go errors are values. \<open>ErrNotFound\<close> is \<open>leveldb.ErrNotFound\<close>; the next two are
  \<open>utils.ErrNoMetaDBRegistered\<close> and \<open>utils.ErrMetaDBAlreadyRegistered\<close>; every other
  error of the storage engine or of the protobuf library is an \<open>ErrOther\<close>.
\<close>

datatype error =
    ErrNotFound
  | ErrNoMetaDBRegistered
  | ErrMetaDBAlreadyRegistered
  | ErrOther string

text \<open>
  A call either returns a value or panics; both leave a state behind (the pool, the
  stores on disk), since a write made before the panic is not undone.
\<close>

datatype ('r, 's) outcome =
    Returns 'r 's
  | Panics string 's

definition nil_dereference :: string where
  "nil_dereference = ''runtime error: invalid memory address or nil pointer dereference''"

text \<open>\<open>type dbWrap struct\<close>; the field \<open>id\<close> is named \<open>id_w\<close> here.\<close>

record 'db dbWrap =
  id_w :: int32
  db :: "'db option"
  path :: string
  dbType :: string
  isMeta :: bool

text \<open>The zero value of \<open>dbWrap\<close>: what \<open>p.dbs[k]\<close> evaluates to when \<open>k\<close> is not a key.\<close>

definition zero_dbWrap :: "'db dbWrap" where
  "zero_dbWrap = \<lparr>id_w = 0, db = None, path = [], dbType = [], isMeta = False\<rparr>"

text \<open>
  \<open>type DBPool struct\<close>. The Go map is an association list with at most one entry per
  key: \<open>AList.update\<close> is the assignment \<open>p.dbs[k] = v\<close>, \<open>map_of\<close> the lookup.
\<close>

record 'db DBPool =
  dbs :: "(int32 \<times> 'db dbWrap) list"
  metaDBID :: int32

text \<open>\<open>pb.DBInfo\<close>, the store descriptor (field \<open>Id\<close> is \<open>DBInfo_Id\<close>).\<close>

record DBInfo =
  DBInfo_Id :: int32
  DbType :: string
  DbPath :: string
  IsMeta :: bool

definition NewDBPool :: "'db DBPool" where
  "NewDBPool = \<lparr>dbs = [], metaDBID = MinInt32\<rparr>"

text \<open>The two-value map index \<open>w, ok := p.dbs[k]\<close> and the one-value index \<open>p.dbs[k]\<close>.\<close>

definition index_ok :: "'db DBPool \<Rightarrow> int32 \<Rightarrow> 'db dbWrap option" where
  "index_ok p k = map_of (dbs p) k"

definition index :: "'db DBPool \<Rightarrow> int32 \<Rightarrow> 'db dbWrap" where
  "index p k = (case map_of (dbs p) k of None \<Rightarrow> zero_dbWrap | Some h \<Rightarrow> h)"

subsection \<open>Register, Open, GetDB\<close>

text \<open>
  \<open>Register\<close> stores the handle first and only then checks the metadata designation,
  so the panic leaves the new handle in the map.
\<close>

definition Register ::
  "int32 \<Rightarrow> string \<Rightarrow> string \<Rightarrow> 'db option \<Rightarrow> bool \<Rightarrow> 'db DBPool \<Rightarrow> (unit, 'db DBPool) outcome"
where
  "Register i pth dbT d isMetaDB p =
    (let p1 = p\<lparr>dbs := AList.update i
                 \<lparr>id_w = i, db = d, path = pth, dbType = dbT, isMeta = isMetaDB\<rparr> (dbs p)\<rparr>
     in if isMetaDB \<and> metaDBID p1 \<noteq> MinInt32 then Panics ''meta db already registered'' p1
        else if isMetaDB then Returns () (p1\<lparr>metaDBID := i\<rparr>)
        else Returns () p1)"

text \<open>
  \<open>Open\<close>. \<open>NewLDB\<close> opens (or creates) a LevelDB store at a path; it is defined outside
  this file of the repository and is a parameter here, acting on the state \<open>'w\<close> of the
  stores on disk. The scan \<open>for _, db := range p.dbs\<close> compares paths only.
\<close>

definition Open ::
  "(string \<Rightarrow> 'w \<Rightarrow> (error + 'db) \<times> 'w) \<Rightarrow> DBInfo \<Rightarrow> 'db DBPool \<Rightarrow> 'w
     \<Rightarrow> (error option, 'db DBPool \<times> 'w) outcome"
where
  "Open NewLDB dbInfo p w =
    (if index_ok p (DBInfo_Id dbInfo) \<noteq> None then Returns None (p, w)
     else if DbType dbInfo = ''leveldb'' then
       (if list_ex (\<lambda>(k, h). path h = DbPath dbInfo) (dbs p) then Returns None (p, w)
        else (case NewLDB (DbPath dbInfo) w of
            (Inl err, w1) \<Rightarrow> Returns (Some err) (p, w1)
          | (Inr d, w1) \<Rightarrow>
              (let p1 = p\<lparr>dbs := AList.update (DBInfo_Id dbInfo)
                           \<lparr>id_w = DBInfo_Id dbInfo, db = Some d, path = DbPath dbInfo,
                            dbType = DbType dbInfo, isMeta = IsMeta dbInfo\<rparr> (dbs p)\<rparr>
               in if IsMeta dbInfo \<and> metaDBID p1 \<noteq> MinInt32
                  then Returns (Some ErrMetaDBAlreadyRegistered) (p1, w1)
                  else if IsMeta dbInfo
                  then Returns None (p1\<lparr>metaDBID := DBInfo_Id dbInfo\<rparr>, w1)
                  else Returns None (p1, w1))))
     else Returns None (p, w))"

text \<open>\<open>GetDB\<close> returns the pair \<open>(db, err)\<close>.\<close>

definition GetDB :: "'db DBPool \<Rightarrow> int32 \<Rightarrow> 'db option \<times> error option" where
  "GetDB p i =
    (case index_ok p i of
       None \<Rightarrow> (None, Some ErrNotFound)
     | Some h \<Rightarrow> (db h, None))"

subsection \<open>The storage engine and the protobuf library\<close>

text \<open>
  The interfaces \<open>DB\<close> and \<open>Batch\<close> and the struct \<open>BatchWithID\<close> are declared outside
  this file; the engine behind them (goleveldb) and \<open>proto.Marshal\<close>,
  \<open>proto.Unmarshal\<close> are libraries. They are parameters of the model: a record of the
  methods the pool calls, over a type \<open>'db\<close> of open stores, a type \<open>'bt\<close> of in-memory
  batches and the state \<open>'w\<close> of the stores on disk. A method that returns
  \<open>(value, error)\<close> returns that pair; \<open>Put\<close> and \<open>Load\<close> return the batch they have
  changed next to their error.
\<close>

record ('db, 'bt, 'w) engine =
  db_Get :: "'db \<Rightarrow> bytes \<Rightarrow> 'w \<Rightarrow> bytes \<times> error option"
  db_NewBatch :: "'db \<Rightarrow> 'bt"
  batch_Put :: "'bt \<Rightarrow> bytes \<Rightarrow> bytes \<Rightarrow> error option \<times> 'bt"
  batch_Dump :: "'bt \<Rightarrow> bytes"
  batch_Load :: "'bt \<Rightarrow> bytes \<Rightarrow> error option \<times> 'bt"
  batch_Write :: "'bt \<Rightarrow> 'w \<Rightarrow> error option \<times> 'w"

text \<open>\<open>pb.BlockInfo\<close>, the checkpoint record. \<open>BlockType\<close> is an \<open>int32\<close> enum.\<close>

type_synonym BlockInfo_BlockType = int32

definition BlockInfo_UNKNOWN :: BlockInfo_BlockType where "BlockInfo_UNKNOWN = 0"
definition BlockInfo_DATA :: BlockInfo_BlockType where "BlockInfo_DATA = 1"
definition BlockInfo_HEADER :: BlockInfo_BlockType where "BlockInfo_HEADER = 2"

record BlockInfo =
  ChainId :: string
  Env :: string
  BlockNum :: int64
  BlockHash :: string
  MsgOffset :: int64
  BlockType :: BlockInfo_BlockType
  BlockSize :: int64

text \<open>
  \<open>proto.Marshal(m)\<close> returns \<open>(bytes, error)\<close>; \<open>proto.Unmarshal(b, m)\<close> fills the
  message \<open>m\<close> it is given and returns an error.
\<close>

record codec =
  proto_Marshal :: "BlockInfo \<Rightarrow> bytes \<times> error option"
  proto_Unmarshal :: "bytes \<Rightarrow> BlockInfo \<Rightarrow> error option \<times> BlockInfo"

text \<open>\<open>pb.BatchItem\<close> (field \<open>Id\<close> is \<open>BatchItem_Id\<close>) and \<open>BatchWithID\<close>.\<close>

record BatchItem =
  BatchItem_Id :: int32
  Data :: bytes

record 'bt BatchWithID =
  ID :: int32
  B :: 'bt

text \<open>The key \<open>LastBlockInfo = "rpl_last_bk"\<close> as bytes.\<close>

definition LastBlockInfo :: bytes where
  "LastBlockInfo = map of_char ''rpl_last_bk''"

subsection \<open>The checkpoint protocol\<close>

text \<open>\<open>&pb.BlockInfo{BlockNum: -1, MsgOffset: -1}\<close>: every other field has its zero value.\<close>

definition not_started :: BlockInfo where
  "not_started = \<lparr>ChainId = [], Env = [], BlockNum = - 1, BlockHash = [], MsgOffset = - 1,
                   BlockType = 0, BlockSize = 0\<rparr>"

text \<open>
  \<open>GetBlockInfo\<close> returns the pair \<open>(header, err)\<close>; \<open>None\<close> is the nil pointer and the
  nil error. It reads the stores and changes nothing.
\<close>

definition GetBlockInfo ::
  "('db, 'bt, 'w) engine \<Rightarrow> codec \<Rightarrow> 'db DBPool \<Rightarrow> 'w
     \<Rightarrow> (BlockInfo option \<times> error option, unit) outcome"
where
  "GetBlockInfo E C p w =
    (if metaDBID p = MinInt32 then Returns (None, Some ErrNoMetaDBRegistered) ()
     else (case db (index p (metaDBID p)) of
         None \<Rightarrow> Panics nil_dereference ()
       | Some d \<Rightarrow>
           (case db_Get E d LastBlockInfo w of (lastMsgHeadBuf, err) \<Rightarrow>
              if err \<noteq> None \<and> err \<noteq> Some ErrNotFound then Returns (None, err) ()
              else if err = Some ErrNotFound \<or> length lastMsgHeadBuf = 0
              then Returns (Some not_started, None) ()
              else (case proto_Unmarshal C lastMsgHeadBuf not_started of
                  (Some e, header) \<Rightarrow> Returns (None, None) ()
                | (None, header) \<Rightarrow> Returns (Some header, None) ()))))"

definition WriteBlockInfo ::
  "('db, 'bt, 'w) engine \<Rightarrow> codec \<Rightarrow> 'db DBPool \<Rightarrow> BlockInfo \<Rightarrow> 'w
     \<Rightarrow> (error option, 'w) outcome"
where
  "WriteBlockInfo E C p header w =
    (if metaDBID p = MinInt32 then Returns (Some ErrNoMetaDBRegistered) w
     else (case proto_Marshal C header of
         (lastMsgHeadBuf, Some err) \<Rightarrow> Returns (Some err) w
       | (lastMsgHeadBuf, None) \<Rightarrow>
           (case db (index p (metaDBID p)) of
              None \<Rightarrow> Panics nil_dereference w
            | Some d \<Rightarrow>
                (case batch_Put E (db_NewBatch E d) LastBlockInfo lastMsgHeadBuf of
                   (Some err, metaBatch) \<Rightarrow> Returns (Some err) w
                 | (None, metaBatch) \<Rightarrow>
                     (case batch_Write E metaBatch w of
                        (Some err, w1) \<Rightarrow> Returns (Some err) w1
                      | (None, w1) \<Rightarrow> Returns None w1)))))"

subsection \<open>The batch protocol\<close>

text \<open>
  \<open>Marshal\<close> appends one item per batch; \<open>tmp\<close> is a fresh copy of the dump, which as a
  value is the dump. The field \<open>ID\<close> is taken to be an \<open>int32\<close>, so that the conversion
  \<open>int32(item.ID)\<close> changes nothing. The pool itself is not read.
\<close>

fun Marshal_loop ::
  "('db, 'bt, 'w) engine \<Rightarrow> 'bt BatchWithID list \<Rightarrow> BatchItem list \<Rightarrow> BatchItem list"
where
  "Marshal_loop E [] batchItems = batchItems"
| "Marshal_loop E (item # rest) batchItems =
     Marshal_loop E rest
       (batchItems @ [\<lparr>BatchItem_Id = ID item, Data = batch_Dump E (B item)\<rparr>])"

definition Marshal ::
  "('db, 'bt, 'w) engine \<Rightarrow> 'bt BatchWithID list \<Rightarrow> BatchItem list \<times> error option"
where
  "Marshal E batchs = (Marshal_loop E batchs [], None)"

text \<open>\<open>WriteBatchs\<close> calls \<open>item.B.Write()\<close> on each batch and returns at the first error.\<close>

fun WriteBatchs ::
  "('db, 'bt, 'w) engine \<Rightarrow> 'bt BatchWithID list \<Rightarrow> 'w \<Rightarrow> (error option, 'w) outcome"
where
  "WriteBatchs E [] w = Returns None w"
| "WriteBatchs E (item # rest) w =
     (case batch_Write E (B item) w of
        (Some err, w1) \<Rightarrow> Returns (Some err) w1
      | (None, w1) \<Rightarrow> WriteBatchs E rest w1)"

text \<open>
  \<open>WriteBatchItems\<close> indexes the map without the \<open>ok\<close> test. For an identifier that is
  not a key, \<open>db\<close> is the zero \<open>dbWrap\<close>, its field \<open>db\<close> is the nil interface, and the
  call \<open>db.db.NewBatch()\<close> panics.
\<close>

fun WriteBatchItems ::
  "('db, 'bt, 'w) engine \<Rightarrow> 'db DBPool \<Rightarrow> BatchItem list \<Rightarrow> 'w \<Rightarrow> (error option, 'w) outcome"
where
  "WriteBatchItems E p [] w = Returns None w"
| "WriteBatchItems E p (item # rest) w =
     (case db (index p (BatchItem_Id item)) of
        None \<Rightarrow> Panics nil_dereference w
      | Some d \<Rightarrow>
          (case batch_Load E (db_NewBatch E d) (Data item) of
             (Some err, batch) \<Rightarrow> Returns (Some err) w
           | (None, batch) \<Rightarrow>
               (case batch_Write E batch w of
                  (Some err, w1) \<Rightarrow> Returns (Some err) w1
                | (None, w1) \<Rightarrow> WriteBatchItems E p rest w1)))"

subsection \<open>Sequences of calls and the registry invariant\<close>

text \<open>
  A history of the registry is a list of \<open>Register\<close> and \<open>Open\<close> calls, run from left
  to right. A panic aborts the process: the run has no final state then. An \<open>Open\<close> that
  returns an error does not abort, and the run goes on from the state it left.
\<close>

datatype 'db call =
    Call_Register int32 string string "'db option" bool
  | Call_Open DBInfo

fun exec_call ::
  "(string \<Rightarrow> 'w \<Rightarrow> (error + 'db) \<times> 'w) \<Rightarrow> 'db call \<Rightarrow> 'db DBPool \<times> 'w
     \<Rightarrow> (error option, 'db DBPool \<times> 'w) outcome"
where
  "exec_call NewLDB (Call_Register i pth dbT d isMetaDB) (p, w) =
     (case Register i pth dbT d isMetaDB p of
        Returns u p1 \<Rightarrow> Returns None (p1, w)
      | Panics msg p1 \<Rightarrow> Panics msg (p1, w))"
| "exec_call NewLDB (Call_Open dbInfo) (p, w) = Open NewLDB dbInfo p w"

fun run_calls ::
  "(string \<Rightarrow> 'w \<Rightarrow> (error + 'db) \<times> 'w) \<Rightarrow> 'db call list \<Rightarrow> 'db DBPool \<times> 'w
     \<Rightarrow> ('db DBPool \<times> 'w) option"
where
  "run_calls NewLDB [] s = Some s"
| "run_calls NewLDB (c # cs) s =
     (case exec_call NewLDB c s of
        Returns r s1 \<Rightarrow> run_calls NewLDB cs s1
      | Panics msg s1 \<Rightarrow> None)"

text \<open>
  The invariant of the data model: at most one stored handle carries the metadata flag,
  and a designated metadata identifier is the key of a handle that carries it.
\<close>

definition meta_handles :: "'db DBPool \<Rightarrow> (int32 \<times> 'db dbWrap) list" where
  "meta_handles p = filter (\<lambda>(k, h). isMeta h) (dbs p)"

definition meta_invariant :: "'db DBPool \<Rightarrow> bool" where
  "meta_invariant p \<longleftrightarrow>
     length (meta_handles p) \<le> 1 \<and>
     (metaDBID p \<noteq> MinInt32 \<longrightarrow>
        (case index_ok p (metaDBID p) of None \<Rightarrow> False | Some h \<Rightarrow> isMeta h))"

text \<open>
  The histories on which the invariant is kept. A call is guarded when a metadata-flagged
  call does not use \<open>math.MinInt32\<close> itself as its identifier and an unflagged \<open>Register\<close>
  does not overwrite the handle of the designated metadata identifier. A history is
  admissible when every call is guarded in the state it runs in, none panics and none
  returns \<open>ErrMetaDBAlreadyRegistered\<close>.
\<close>

fun call_guard :: "'db call \<Rightarrow> 'db DBPool \<Rightarrow> bool" where
  "call_guard (Call_Register i pth dbT d isMetaDB) p =
     (if isMetaDB then i \<noteq> MinInt32 else metaDBID p = MinInt32 \<or> i \<noteq> metaDBID p)"
| "call_guard (Call_Open dbInfo) p = (IsMeta dbInfo \<longrightarrow> DBInfo_Id dbInfo \<noteq> MinInt32)"

fun admissible ::
  "(string \<Rightarrow> 'w \<Rightarrow> (error + 'db) \<times> 'w) \<Rightarrow> 'db call list \<Rightarrow> 'db DBPool \<times> 'w \<Rightarrow> bool"
where
  "admissible NewLDB [] s = True"
| "admissible NewLDB (c # cs) s =
     (call_guard c (fst s) \<and>
      (case exec_call NewLDB c s of
         Returns r s1 \<Rightarrow> r \<noteq> Some ErrMetaDBAlreadyRegistered \<and> admissible NewLDB cs s1
       | Panics msg s1 \<Rightarrow> False))"

text \<open>
  The invariant that the proof carries along a history: the keys of the map are distinct,
  a flagged handle sits under the designated identifier, which is then not
  \<open>math.MinInt32\<close>, and a designated identifier has a flagged handle.
\<close>

definition meta_strong :: "'db DBPool \<Rightarrow> bool" where
  "meta_strong p \<longleftrightarrow>
     distinct (map fst (dbs p)) \<and>
     (\<forall>k h. map_of (dbs p) k = Some h \<longrightarrow> isMeta h \<longrightarrow> k = metaDBID p \<and> metaDBID p \<noteq> MinInt32) \<and>
     (metaDBID p \<noteq> MinInt32 \<longrightarrow> (\<exists>h. map_of (dbs p) (metaDBID p) = Some h \<and> isMeta h))"

subsection \<open>What the claims assume of the engine\<close>

text \<open>
  The state of the stores after the batches of a list have been written in order,
  whatever each write returned.
\<close>

definition commit_all ::
  "('db, 'bt, 'w) engine \<Rightarrow> 'bt BatchWithID list \<Rightarrow> 'w \<Rightarrow> 'w"
where
  "commit_all E batchs w = foldl (\<lambda>w1 item. snd (batch_Write E (B item) w1)) w batchs"

text \<open>
  \<open>Load\<close> inverts \<open>Dump\<close> for a batch \<open>b\<close> of the store \<open>d\<close>: loading the dump of \<open>b\<close> into
  a fresh batch of \<open>d\<close> succeeds and gives a batch whose \<open>Write\<close> is that of \<open>b\<close>.
\<close>

definition load_inverts_dump :: "('db, 'bt, 'w) engine \<Rightarrow> 'db \<Rightarrow> 'bt \<Rightarrow> bool" where
  "load_inverts_dump E d b =
     (case batch_Load E (db_NewBatch E d) (batch_Dump E b) of
        (Some err, b1) \<Rightarrow> False
      | (None, b1) \<Rightarrow> batch_Write E b1 = batch_Write E b)"

text \<open>
  A batch is addressed to a registered store when its identifier is a key of the pool,
  the handle there holds an open store, and the batch is a batch of that store.
\<close>

definition addressed ::
  "('db, 'bt, 'w) engine \<Rightarrow> 'db DBPool \<Rightarrow> 'bt BatchWithID \<Rightarrow> bool"
where
  "addressed E p item =
     (case index_ok p (ID item) of
        None \<Rightarrow> False
      | Some h \<Rightarrow> (case db h of None \<Rightarrow> False | Some d \<Rightarrow> load_inverts_dump E d (B item)))"

text \<open>
  A store reads back what a successful write of a one-entry batch has put:
  the engine's contract for \<open>Put\<close>, \<open>Write\<close> and \<open>Get\<close>.
\<close>

definition reads_back_writes :: "('db, 'bt, 'w) engine \<Rightarrow> bool" where
  "reads_back_writes E \<longleftrightarrow>
     (\<forall>d k v b w w1. batch_Put E (db_NewBatch E d) k v = (None, b) \<longrightarrow>
        batch_Write E b w = (None, w1) \<longrightarrow> db_Get E d k w1 = (v, None))"

subsection \<open>An engine held in memory\<close>

text \<open>
  To run the pool on concrete inputs the engine parameter is instantiated with stores
  held in memory. A store is a number; the state of the stores lists the contents of every
  open store and the stores whose writes fail. A batch is the number of its store and its
  pending puts. \<open>Dump\<close> frames every key and value with its length in unary; \<open>Load\<close>
  parses the frames and rejects anything else.
\<close>

record mem_world =
  stores :: "(nat \<times> (bytes \<times> bytes) list) list"
  closed :: "nat list"

type_synonym mem_batch = "nat \<times> (bytes \<times> bytes) list"

definition mem_Get :: "nat \<Rightarrow> bytes \<Rightarrow> mem_world \<Rightarrow> bytes \<times> error option" where
  "mem_Get d k w =
     (case map_of (stores w) d of
        None \<Rightarrow> ([], Some (ErrOther ''leveldb: closed''))
      | Some kvs \<Rightarrow> (case map_of kvs k of None \<Rightarrow> ([], Some ErrNotFound) | Some v \<Rightarrow> (v, None)))"

definition mem_NewBatch :: "nat \<Rightarrow> mem_batch" where
  "mem_NewBatch d = (d, [])"

definition mem_Put :: "mem_batch \<Rightarrow> bytes \<Rightarrow> bytes \<Rightarrow> error option \<times> mem_batch" where
  "mem_Put b k v = (None, (fst b, snd b @ [(k, v)]))"

definition mem_frame :: "bytes \<Rightarrow> bytes" where
  "mem_frame bs = replicate (length bs) 1 @ [0] @ bs"

definition mem_Dump :: "mem_batch \<Rightarrow> bytes" where
  "mem_Dump b = concat (map (\<lambda>(k, v). mem_frame k @ mem_frame v) (snd b))"

fun mem_unframe :: "nat \<Rightarrow> bytes \<Rightarrow> (bytes \<times> bytes) option" where
  "mem_unframe n [] = None"
| "mem_unframe n (x # xs) =
     (if x = 1 then mem_unframe (Suc n) xs
      else if x = 0 \<and> n \<le> length xs then Some (take n xs, drop n xs)
      else None)"

fun mem_parse :: "nat \<Rightarrow> bytes \<Rightarrow> (bytes \<times> bytes) list option" where
  "mem_parse fuel [] = Some []"
| "mem_parse 0 (x # xs) = None"
| "mem_parse (Suc fuel) (x # xs) =
     (case mem_unframe 0 (x # xs) of
        None \<Rightarrow> None
      | Some (k, rest) \<Rightarrow>
          (case mem_unframe 0 rest of
             None \<Rightarrow> None
           | Some (v, rest1) \<Rightarrow>
               (case mem_parse fuel rest1 of None \<Rightarrow> None | Some ops \<Rightarrow> Some ((k, v) # ops))))"

definition mem_Load :: "mem_batch \<Rightarrow> bytes \<Rightarrow> error option \<times> mem_batch" where
  "mem_Load b data =
     (case mem_parse (length data) data of
        None \<Rightarrow> (Some (ErrOther ''leveldb: batch is corrupted''), b)
      | Some ops \<Rightarrow> (None, (fst b, snd b @ ops)))"

definition mem_Write :: "mem_batch \<Rightarrow> mem_world \<Rightarrow> error option \<times> mem_world" where
  "mem_Write b w =
     (case map_of (stores w) (fst b) of
        None \<Rightarrow> (Some (ErrOther ''leveldb: closed''), w)
      | Some kvs \<Rightarrow>
          if fst b \<in> set (closed w) then (Some (ErrOther ''leveldb: closed''), w)
          else (None, w\<lparr>stores := AList.update (fst b)
                  (foldl (\<lambda>kvs1 (k, v). AList.update k v kvs1) kvs (snd b)) (stores w)\<rparr>))"

definition mem_engine :: "(nat, mem_batch, mem_world) engine" where
  "mem_engine = \<lparr>db_Get = mem_Get, db_NewBatch = mem_NewBatch, batch_Put = mem_Put,
                  batch_Dump = mem_Dump, batch_Load = mem_Load, batch_Write = mem_Write\<rparr>"

subsection \<open>The wire format of \<open>BlockInfo\<close>\<close>

text \<open>
  To run the checkpoint protocol on concrete inputs the codec parameter is instantiated
  with the proto3 wire format of the message \<open>BlockInfo\<close>, as the field tags of the
  generated struct fix it: strings at the field numbers 1, 2 and 4, varints at 3, 5, 6
  and 7. \<open>put_uvarint\<close> and \<open>get_uvarint\<close> are the base-128 varint of at most ten
  bytes. The record has the exported fields of the struct only: the bytes of unknown
  fields, which the library keeps in the message, are skipped and not kept.
\<close>

function put_uvarint :: "nat \<Rightarrow> bytes" where
  "put_uvarint n =
     (if n < 128 then [of_nat n] else of_nat (n mod 128 + 128) # put_uvarint (n div 128))"
  by pat_completeness auto
termination
  by (relation "measure (\<lambda>n. n)") auto

declare put_uvarint.simps [simp del]

fun get_uvarint :: "nat \<Rightarrow> nat \<Rightarrow> bytes \<Rightarrow> (nat \<times> bytes) option" where
  "get_uvarint i acc [] = None"
| "get_uvarint i acc (b # bs) =
     (if unat b < 128
      then (if i = 9 \<and> 1 < unat b then None else Some (acc + unat b * 2 ^ (7 * i), bs))
      else if i = 9 then None
      else get_uvarint (Suc i) (acc + (unat b - 128) * 2 ^ (7 * i)) bs)"

definition cont_byte :: "8 word \<Rightarrow> bool" where
  "cont_byte b \<longleftrightarrow> 128 \<le> unat b \<and> unat b \<le> 191"

definition utf8_width :: "bytes \<Rightarrow> nat" where
  "utf8_width bs =
     (case bs of
        [] \<Rightarrow> 0
      | a # r1 \<Rightarrow>
          if unat a < 128 then 1
          else if unat a < 194 \<or> 244 < unat a then 0
          else (case r1 of
              [] \<Rightarrow> 0
            | b # r2 \<Rightarrow>
                if unat a \<le> 223 then (if cont_byte b then 2 else 0)
                else if unat a = 224 \<and> unat b < 160 then 0
                else if unat a = 237 \<and> 159 < unat b then 0
                else if unat a = 240 \<and> unat b < 144 then 0
                else if unat a = 244 \<and> 143 < unat b then 0
                else if \<not> cont_byte b then 0
                else (case r2 of
                    [] \<Rightarrow> 0
                  | c # r3 \<Rightarrow>
                      if \<not> cont_byte c then 0
                      else if unat a \<le> 239 then 3
                      else (case r3 of [] \<Rightarrow> 0 | d # r4 \<Rightarrow> if cont_byte d then 4 else 0))))"

fun valid_utf8_from :: "nat \<Rightarrow> bytes \<Rightarrow> bool" where
  "valid_utf8_from fuel [] = True"
| "valid_utf8_from 0 (x # xs) = False"
| "valid_utf8_from (Suc fuel) (x # xs) =
     (utf8_width (x # xs) \<noteq> 0 \<and> valid_utf8_from fuel (drop (utf8_width (x # xs)) (x # xs)))"

definition valid_utf8 :: "bytes \<Rightarrow> bool" where
  "valid_utf8 bs = valid_utf8_from (length bs) bs"

definition pb_tag :: "nat \<Rightarrow> nat \<Rightarrow> bytes" where
  "pb_tag num wtyp = put_uvarint (num * 8 + wtyp)"

definition pb_string :: "nat \<Rightarrow> string \<Rightarrow> bytes" where
  "pb_string num s =
     (if s = [] then [] else pb_tag num 2 @ put_uvarint (length s) @ map of_char s)"

definition pb_int64 :: "nat \<Rightarrow> int64 \<Rightarrow> bytes" where
  "pb_int64 num v = (if v = 0 then [] else pb_tag num 0 @ put_uvarint (unat v))"

definition pb_enum :: "nat \<Rightarrow> int32 \<Rightarrow> bytes" where
  "pb_enum num v =
     (if v = 0 then [] else pb_tag num 0 @ put_uvarint (unat (scast v :: 64 word)))"

text \<open>
  \<open>Marshal\<close> writes the fields in the order of their numbers and leaves out a field
  that holds its zero value. A string field that is not valid UTF-8 is written and ends
  the encoding: the bytes written so far are returned with the error.
\<close>

definition pb_utf8_error :: error where
  "pb_utf8_error = ErrOther ''string field contains invalid UTF-8''"

definition pb_Marshal :: "BlockInfo \<Rightarrow> bytes \<times> error option" where
  "pb_Marshal m =
     (let b1 = pb_string 1 (ChainId m) in
      if \<not> valid_utf8 (map of_char (ChainId m)) then (b1, Some pb_utf8_error)
      else let b2 = b1 @ pb_string 2 (Env m) in
      if \<not> valid_utf8 (map of_char (Env m)) then (b2, Some pb_utf8_error)
      else let b4 = b2 @ pb_int64 3 (BlockNum m) @ pb_string 4 (BlockHash m) in
      if \<not> valid_utf8 (map of_char (BlockHash m)) then (b4, Some pb_utf8_error)
      else (b4 @ pb_int64 5 (MsgOffset m) @ pb_enum 6 (BlockType m)
            @ pb_int64 7 (BlockSize m), None))"

definition zero_BlockInfo :: BlockInfo where
  "zero_BlockInfo = \<lparr>ChainId = [], Env = [], BlockNum = 0, BlockHash = [], MsgOffset = 0,
                     BlockType = 0, BlockSize = 0\<rparr>"

definition pb_set_varint :: "nat \<Rightarrow> nat \<Rightarrow> BlockInfo \<Rightarrow> BlockInfo" where
  "pb_set_varint num v m =
     (if num = 3 then m\<lparr>BlockNum := of_nat v\<rparr>
      else if num = 5 then m\<lparr>MsgOffset := of_nat v\<rparr>
      else if num = 6 then m\<lparr>BlockType := of_nat v\<rparr>
      else if num = 7 then m\<lparr>BlockSize := of_nat v\<rparr>
      else m)"

definition pb_set_string :: "nat \<Rightarrow> bytes \<Rightarrow> BlockInfo \<Rightarrow> BlockInfo" where
  "pb_set_string num v m =
     (if num = 1 then m\<lparr>ChainId := map (\<lambda>b. char_of (unat b)) v\<rparr>
      else if num = 2 then m\<lparr>Env := map (\<lambda>b. char_of (unat b)) v\<rparr>
      else if num = 4 then m\<lparr>BlockHash := map (\<lambda>b. char_of (unat b)) v\<rparr>
      else m)"

text \<open>
  The value of a field that the message does not know, or whose wire type is not the one
  of the field, is skipped: a varint, eight bytes, a length-delimited payload, four bytes,
  or a group, which runs to the end-group tag of its own field number and may hold groups
  down to the recursion limit of 10000. \<open>pb_skip\<close> returns the bytes after the value. Its first argument
  bounds the number of calls; twice the number of bytes and two are enough, since every
  pass through a group reads a tag.
\<close>

fun pb_skip :: "nat \<Rightarrow> nat \<Rightarrow> nat \<Rightarrow> nat \<Rightarrow> bytes \<Rightarrow> bytes option"
  and pb_skip_group :: "nat \<Rightarrow> nat \<Rightarrow> nat \<Rightarrow> bytes \<Rightarrow> bytes option"
where
  "pb_skip 0 depth num wtyp b = None"
| "pb_skip (Suc fuel) depth num wtyp b =
     (if wtyp = 0 then
        (case get_uvarint 0 0 b of None \<Rightarrow> None | Some (v, rest) \<Rightarrow> Some rest)
      else if wtyp = 1 then (if length b < 8 then None else Some (drop 8 b))
      else if wtyp = 2 then
        (case get_uvarint 0 0 b of
           None \<Rightarrow> None
         | Some (n, rest) \<Rightarrow> if length rest < n then None else Some (drop n rest))
      else if wtyp = 5 then (if length b < 4 then None else Some (drop 4 b))
      else if wtyp = 3 then (if depth = 0 then None else pb_skip_group fuel depth num b)
      else None)"
| "pb_skip_group 0 depth num b = None"
| "pb_skip_group (Suc fuel) depth num b =
     (case get_uvarint 0 0 b of
        None \<Rightarrow> None
      | Some (tag, rest) \<Rightarrow>
          if tag div 8 < 1 \<or> 2 ^ 31 - 1 < tag div 8 then None
          else if tag mod 8 = 4 then (if tag div 8 = num then Some rest else None)
          else (case pb_skip fuel (depth - 1) (tag div 8) (tag mod 8) rest of
              None \<Rightarrow> None
            | Some rest1 \<Rightarrow> pb_skip_group fuel depth num rest1))"

text \<open>
  \<open>Unmarshal\<close> resets the message and decodes field after field into it. It stops at
  the first error and returns it with the message as far as it has been filled. String
  fields hold valid UTF-8.
\<close>

definition pb_decode_error :: error where
  "pb_decode_error = ErrOther ''proto: cannot parse invalid wire-format data''"

fun pb_fields :: "nat \<Rightarrow> bytes \<Rightarrow> BlockInfo \<Rightarrow> error option \<times> BlockInfo" where
  "pb_fields fuel [] m = (None, m)"
| "pb_fields 0 (x # xs) m = (Some pb_decode_error, m)"
| "pb_fields (Suc fuel) (x # xs) m =
     (case get_uvarint 0 0 (x # xs) of
        None \<Rightarrow> (Some pb_decode_error, m)
      | Some (tag, rest) \<Rightarrow>
          if tag div 8 < 1 \<or> 2 ^ 29 - 1 < tag div 8 then (Some pb_decode_error, m)
          else if tag mod 8 = 4 then (Some pb_decode_error, m)
          else if tag mod 8 = 0 \<and> tag div 8 \<in> {3, 5, 6, 7} then
            (case get_uvarint 0 0 rest of
               None \<Rightarrow> (Some pb_decode_error, m)
             | Some (v, rest1) \<Rightarrow> pb_fields fuel rest1 (pb_set_varint (tag div 8) v m))
          else if tag mod 8 = 2 \<and> tag div 8 \<in> {1, 2, 4} then
            (case get_uvarint 0 0 rest of
               None \<Rightarrow> (Some pb_decode_error, m)
             | Some (n, rest1) \<Rightarrow>
                 if length rest1 < n then (Some pb_decode_error, m)
                 else if \<not> valid_utf8 (take n rest1) then (Some pb_utf8_error, m)
                 else pb_fields fuel (drop n rest1) (pb_set_string (tag div 8) (take n rest1) m))
          else
            (case pb_skip (Suc (Suc (length rest + length rest))) 10001 (tag div 8) (tag mod 8)
                    rest of
               None \<Rightarrow> (Some pb_decode_error, m)
             | Some rest1 \<Rightarrow> pb_fields fuel rest1 m))"

definition pb_Unmarshal :: "bytes \<Rightarrow> BlockInfo \<Rightarrow> error option \<times> BlockInfo" where
  "pb_Unmarshal b m = pb_fields (length b) b zero_BlockInfo"

definition pb_codec :: codec where
  "pb_codec = \<lparr>proto_Marshal = pb_Marshal, proto_Unmarshal = pb_Unmarshal\<rparr>"

subsection \<open>Concrete inputs\<close>

text \<open>
  \<open>mem_NewLDB\<close> opens a new empty store, numbered after the stores that exist; the
  empty path cannot be opened.
\<close>

definition mem_NewLDB :: "string \<Rightarrow> mem_world \<Rightarrow> (error + nat) \<times> mem_world" where
  "mem_NewLDB pth w =
     (if pth = [] then (Inl (ErrOther ''open: no such file or directory''), w)
      else (Inr (length (stores w)), w\<lparr>stores := stores w @ [(length (stores w), [])]\<rparr>))"

text \<open>Two open stores in memory, both empty; in \<open>world_closed\<close> the writes to store 1 fail.\<close>

definition world0 :: mem_world where
  "world0 = \<lparr>stores = [(0, []), (1, [])], closed = []\<rparr>"

definition world_closed :: mem_world where
  "world_closed = \<lparr>stores = [(0, []), (1, [])], closed = [1]\<rparr>"

text \<open>
  A pool with the metadata store 0 registered under the identifier 1 and the data store 1
  under the identifier 3.
\<close>

definition handle_meta :: "nat dbWrap" where
  "handle_meta = \<lparr>id_w = 1, db = Some 0, path = ''/data/meta'', dbType = ''leveldb'',
                   isMeta = True\<rparr>"

definition handle_data :: "nat dbWrap" where
  "handle_data = \<lparr>id_w = 3, db = Some 1, path = ''/data/chain'', dbType = ''leveldb'',
                   isMeta = False\<rparr>"

definition pool13 :: "nat DBPool" where
  "pool13 = \<lparr>dbs = [(1, handle_meta), (3, handle_data)], metaDBID = 1\<rparr>"

text \<open>The checkpoint of the specification's example: block number 42, message offset 7.\<close>

definition checkpoint42 :: BlockInfo where
  "checkpoint42 = \<lparr>ChainId = ''eth'', Env = ''prod'', BlockNum = 42, BlockHash = ''0xab'',
                    MsgOffset = 7, BlockType = BlockInfo_DATA, BlockSize = 300\<rparr>"

text \<open>
  A descriptor of a second metadata store, and the pool and the stores that \<open>Open\<close>
  leaves behind when it is called with this descriptor on \<open>pool13\<close>.
\<close>

definition info7 :: DBInfo where
  "info7 = \<lparr>DBInfo_Id = 7, DbType = ''leveldb'', DbPath = ''/data/meta2'', IsMeta = True\<rparr>"

definition pool137 :: "nat DBPool" where
  "pool137 = \<lparr>dbs = [(1, handle_meta), (3, handle_data),
                      (7, \<lparr>id_w = 7, db = Some 2, path = ''/data/meta2'', dbType = ''leveldb'',
                           isMeta = True\<rparr>)],
               metaDBID = 1\<rparr>"

definition world3 :: mem_world where
  "world3 = \<lparr>stores = [(0, []), (1, []), (2, [])], closed = []\<rparr>"

text \<open>
  Histories: one that is admissible, and three that are not. In the second the metadata
  identifier is registered again without the flag; in the third \<open>Open\<close> returns
  \<open>ErrMetaDBAlreadyRegistered\<close>; in the fourth the metadata handle is registered under
  \<open>math.MinInt32\<close> itself.
\<close>

definition history_ok :: "nat call list" where
  "history_ok = [Call_Register 3 ''/data/chain'' ''leveldb'' (Some 1) False,
                 Call_Register 1 ''/data/meta'' ''leveldb'' (Some 0) True,
                 Call_Open \<lparr>DBInfo_Id = 7, DbType = ''leveldb'', DbPath = ''/data/aux'', IsMeta = False\<rparr>,
                 Call_Register 3 ''/data/chain2'' ''leveldb'' (Some 1) False,
                 Call_Open info7]"

definition history_overwrite :: "nat call list" where
  "history_overwrite = [Call_Register 1 ''/data/meta'' ''leveldb'' (Some 0) True,
                        Call_Register 1 ''/data/meta'' ''leveldb'' (Some 0) False]"

definition history_open_dup :: "nat call list" where
  "history_open_dup = [Call_Register 1 ''/data/meta'' ''leveldb'' (Some 0) True,
                       Call_Open info7]"

definition history_sentinel :: "nat call list" where
  "history_sentinel = [Call_Register MinInt32 ''/data/meta'' ''leveldb'' (Some 0) True,
                       Call_Register 2 ''/data/meta2'' ''leveldb'' (Some 1) True]"

text \<open>Batches of the stores 1 and 0, addressed to the identifiers 3 and 1 of \<open>pool13\<close>.\<close>

definition batch_a :: "mem_batch BatchWithID" where
  "batch_a = \<lparr>ID = 3, B = (1, [([1], [2])])\<rparr>"

definition batch_b :: "mem_batch BatchWithID" where
  "batch_b = \<lparr>ID = 1, B = (0, [([3], [4]), ([5, 6], [])])\<rparr>"

definition batch_c :: "mem_batch BatchWithID" where
  "batch_c = \<lparr>ID = 3, B = (1, [([7], [8])])\<rparr>"

text \<open>A batch of the store 0 that puts another value under a key of \<open>batch_b\<close>.\<close>

definition batch_d :: "mem_batch BatchWithID" where
  "batch_d = \<lparr>ID = 1, B = (0, [([3], [9])])\<rparr>"

text \<open>
  The stores after \<open>checkpoint42\<close> has been written, after the all-zero checkpoint has
  been written, and with one byte under the checkpoint key that is no message.
\<close>

definition world_checkpoint42 :: mem_world where
  "world_checkpoint42 =
     \<lparr>stores = [(0, [(LastBlockInfo,
                       [10, 3, 101, 116, 104, 18, 4, 112, 114, 111, 100, 24, 42, 34, 4, 48, 120,
                        97, 98, 40, 7, 48, 1, 56, 172, 2])]),
                 (1, [])],
      closed = []\<rparr>"

definition world_zero_checkpoint :: mem_world where
  "world_zero_checkpoint = \<lparr>stores = [(0, [(LastBlockInfo, [])]), (1, [])], closed = []\<rparr>"

definition world_corrupt :: mem_world where
  "world_corrupt = \<lparr>stores = [(0, [(LastBlockInfo, [255])]), (1, [])], closed = []\<rparr>"

section \<open>Properties of the registry\<close>

lemma GetDB_unregistered: "index_ok p i = None \<Longrightarrow> GetDB p i = (None, Some ErrNotFound)"
  by (simp add: GetDB_def)

text \<open>
  C7. \<open>Register\<close> with the metadata flag set, in a pool whose metadata identifier is
  already designated, panics with "meta db already registered". It does not return. The
  handle has been stored by then and the designation is the old one.
\<close>

theorem Register_second_meta_panics:
  assumes "metaDBID p \<noteq> MinInt32"
  shows "Register i pth dbT d True p =
           Panics ''meta db already registered''
             (p\<lparr>dbs := AList.update i
                \<lparr>id_w = i, db = d, path = pth, dbType = dbT, isMeta = True\<rparr> (dbs p)\<rparr>)"
  using assms by (simp add: Register_def)

theorem Register_second_meta_panics_witness:
  "metaDBID pool13 \<noteq> MinInt32 \<and>
   Register 5 ''/data/aux'' ''leveldb'' (Some 1) True pool13 =
     Panics ''meta db already registered''
       \<lparr>dbs = [(1, handle_meta), (3, handle_data),
               (5, \<lparr>id_w = 5, db = Some 1, path = ''/data/aux'', dbType = ''leveldb'',
                    isMeta = True\<rparr>)],
        metaDBID = 1\<rparr>"
proof -
  have h: "metaDBID pool13 \<noteq> MinInt32"
    by (simp add: pool13_def MinInt32_def)
  show ?thesis
    using h Register_second_meta_panics [OF h, of 5 "''/data/aux''" "''leveldb''" "Some 1"]
    by (simp add: pool13_def)
qed

text \<open>
  C8. \<open>Open\<close> of a leveldb descriptor whose identifier is not registered and whose path
  is the path of a registered handle returns nil and leaves the pool and the stores as
  they were: no handle is stored for the new identifier, and \<open>GetDB\<close> on it in the pool
  after the call, which is the pool before it, returns \<open>ErrNotFound\<close>.
\<close>

theorem Open_same_path_drops_identifier:
  assumes "index_ok p (DBInfo_Id dbInfo) = None"
    and "DbType dbInfo = ''leveldb''"
    and "\<exists>h \<in> snd ` set (dbs p). path h = DbPath dbInfo"
  shows "Open NewLDB dbInfo p w = Returns None (p, w) \<and>
         GetDB p (DBInfo_Id dbInfo) = (None, Some ErrNotFound)"
proof -
  from assms(3) have "list_ex (\<lambda>(k, h). path h = DbPath dbInfo) (dbs p)"
    by (auto simp: list_ex_iff)
  with assms(1,2) show ?thesis
    by (simp add: Open_def GetDB_unregistered)
qed

theorem Open_same_path_drops_identifier_witness:
  "index_ok pool13 7 = None \<and>
   (\<exists>h \<in> snd ` set (dbs pool13). path h = ''/data/chain'') \<and>
   Open mem_NewLDB
     \<lparr>DBInfo_Id = 7, DbType = ''leveldb'', DbPath = ''/data/chain'', IsMeta = False\<rparr>
     pool13 world0 = Returns None (pool13, world0) \<and>
   GetDB pool13 7 = (None, Some ErrNotFound)"
proof -
  let ?d = "\<lparr>DBInfo_Id = 7, DbType = ''leveldb'', DbPath = ''/data/chain'', IsMeta = False\<rparr>"
  have h1: "index_ok pool13 (DBInfo_Id ?d) = None"
    by (simp add: index_ok_def pool13_def)
  have h2: "DbType ?d = ''leveldb''"
    by simp
  have h3: "\<exists>h \<in> snd ` set (dbs pool13). path h = DbPath ?d"
    by (simp add: pool13_def handle_data_def)
  show ?thesis
    using h1 h3 Open_same_path_drops_identifier [OF h1 h2 h3, of mem_NewLDB world0]
    by simp
qed

text \<open>
  C9. When \<open>Open\<close> returns \<open>ErrMetaDBAlreadyRegistered\<close>, and the error is its own and
  not one that \<open>NewLDB\<close> returned, the descriptor is metadata-flagged, a metadata
  identifier was designated before the call, and the identifier was not registered. The
  pool that the call leaves holds the new handle, flagged as metadata, under the
  descriptor's identifier, so \<open>GetDB\<close> on it returns the opened store and no error.
  The designated metadata identifier is the one from before the call.
\<close>

theorem Open_duplicate_meta_error_keeps_handle:
  assumes "Open NewLDB dbInfo p w = Returns (Some ErrMetaDBAlreadyRegistered) (p1, w1)"
    and "fst (NewLDB (DbPath dbInfo) w) \<noteq> Inl ErrMetaDBAlreadyRegistered"
  shows "IsMeta dbInfo \<and> metaDBID p \<noteq> MinInt32 \<and>
         index_ok p (DBInfo_Id dbInfo) = None \<and>
         (\<exists>h. index_ok p1 (DBInfo_Id dbInfo) = Some h \<and> isMeta h \<and>
               GetDB p1 (DBInfo_Id dbInfo) = (db h, None) \<and> db h \<noteq> None) \<and>
         metaDBID p1 = metaDBID p"
  using assms
  by (auto simp: Open_def GetDB_def index_ok_def Let_def update_conv'
           split: if_splits prod.splits sum.splits)

theorem Open_duplicate_meta_error_keeps_handle_witness:
  "Open mem_NewLDB info7 pool13 world0 =
     Returns (Some ErrMetaDBAlreadyRegistered) (pool137, world3) \<and>
   fst (mem_NewLDB (DbPath info7) world0) \<noteq> Inl ErrMetaDBAlreadyRegistered \<and>
   GetDB pool137 7 = (Some 2, None) \<and> metaDBID pool137 = metaDBID pool13"
proof -
  have h1: "Open mem_NewLDB info7 pool13 world0 =
              Returns (Some ErrMetaDBAlreadyRegistered) (pool137, world3)"
    by (simp add: Open_def info7_def pool13_def pool137_def world0_def world3_def index_ok_def
          mem_NewLDB_def handle_meta_def handle_data_def MinInt32_def)
  have h2: "fst (mem_NewLDB (DbPath info7) world0) \<noteq> Inl ErrMetaDBAlreadyRegistered"
    by (simp add: mem_NewLDB_def info7_def)
  show ?thesis
    using h1 h2 Open_duplicate_meta_error_keeps_handle [OF h1 h2]
    by (simp add: GetDB_def index_ok_def pool137_def pool13_def info7_def)
qed

text \<open>
  C10. \<open>Open\<close> of a descriptor whose engine type is not "leveldb" and whose identifier is
  not registered returns nil and leaves the pool and the stores as they were, whatever
  \<open>NewLDB\<close> would do: no store is opened and no handle is stored, and \<open>GetDB\<close> on the
  identifier returns \<open>ErrNotFound\<close>.
\<close>

theorem Open_other_engine_type_is_noop:
  assumes "DbType dbInfo \<noteq> ''leveldb''"
    and "index_ok p (DBInfo_Id dbInfo) = None"
  shows "Open NewLDB dbInfo p w = Returns None (p, w) \<and>
         GetDB p (DBInfo_Id dbInfo) = (None, Some ErrNotFound)"
  using assms by (simp add: Open_def GetDB_unregistered)

theorem Open_other_engine_type_is_noop_witness:
  "''rocksdb'' \<noteq> ''leveldb'' \<and> index_ok pool13 7 = None \<and>
   Open mem_NewLDB
     \<lparr>DBInfo_Id = 7, DbType = ''rocksdb'', DbPath = ''/data/rocks'', IsMeta = False\<rparr>
     pool13 world0 = Returns None (pool13, world0) \<and>
   GetDB pool13 7 = (None, Some ErrNotFound)"
proof -
  let ?d = "\<lparr>DBInfo_Id = 7, DbType = ''rocksdb'', DbPath = ''/data/rocks'', IsMeta = False\<rparr>"
  have h1: "DbType ?d \<noteq> ''leveldb''"
    by simp
  have h2: "index_ok pool13 (DBInfo_Id ?d) = None"
    by (simp add: index_ok_def pool13_def)
  show ?thesis
    using h2 Open_other_engine_type_is_noop [OF h1 h2, of mem_NewLDB world0]
    by simp
qed

subsection \<open>The invariant along a history\<close>

lemma filter_single_key:
  assumes "distinct (map fst xs)" and "\<forall>(k, h) \<in> set xs. P h \<longrightarrow> k = m"
  shows "length (filter (\<lambda>(k, h). P h) xs) \<le> 1"
  using assms
proof (induction xs)
  case Nil
  then show ?case by simp
next
  case (Cons x xs)
  obtain k h where x: "x = (k, h)" by (cases x)
  show ?case
  proof (cases "P h")
    case False
    with Cons x show ?thesis by simp
  next
    case True
    with Cons.prems x have km: "k = m" by simp
    have "filter (\<lambda>(k, h). P h) xs = []"
    proof (rule ccontr)
      assume "filter (\<lambda>(k, h). P h) xs \<noteq> []"
      then obtain y where y: "y \<in> set xs" "(\<lambda>(k, h). P h) y"
        by (metis (mono_tags, lifting) filter_False)
      obtain k' h' where y': "y = (k', h')" by (cases y)
      with y Cons.prems(2) have "k' = m" by auto
      with y y' have "m \<in> fst ` set xs" by force
      with Cons.prems(1) x km show False by simp
    qed
    with x True show ?thesis by simp
  qed
qed

lemma meta_strong_distinct: "meta_strong p \<Longrightarrow> distinct (map fst (dbs p))"
  unfolding meta_strong_def by blast

lemma meta_strong_flagged:
  "meta_strong p \<Longrightarrow> map_of (dbs p) k = Some h \<Longrightarrow> isMeta h
     \<Longrightarrow> k = metaDBID p \<and> metaDBID p \<noteq> MinInt32"
  unfolding meta_strong_def by blast

lemma meta_strong_designated:
  "meta_strong p \<Longrightarrow> metaDBID p \<noteq> MinInt32
     \<Longrightarrow> \<exists>h. map_of (dbs p) (metaDBID p) = Some h \<and> isMeta h"
  unfolding meta_strong_def by blast

lemma meta_strong_invariant:
  assumes "meta_strong p"
  shows "meta_invariant p"
proof -
  note d = meta_strong_distinct [OF assms]
  have "\<forall>(k, h) \<in> set (dbs p). isMeta h \<longrightarrow> k = metaDBID p"
  proof (clarify)
    fix k h
    assume "(k, h) \<in> set (dbs p)" and "isMeta h"
    with d have "map_of (dbs p) k = Some h" and "isMeta h"
      by simp_all
    with assms show "k = metaDBID p"
      by (blast dest: meta_strong_flagged)
  qed
  with d have "length (filter (\<lambda>(k, h). isMeta h) (dbs p)) \<le> 1"
    by (rule filter_single_key)
  then have one: "length (meta_handles p) \<le> 1"
    by (simp add: meta_handles_def)
  have "metaDBID p \<noteq> MinInt32 \<longrightarrow>
      (case index_ok p (metaDBID p) of None \<Rightarrow> False | Some h \<Rightarrow> isMeta h)"
  proof
    assume "metaDBID p \<noteq> MinInt32"
    with assms obtain h where "map_of (dbs p) (metaDBID p) = Some h" and "isMeta h"
      by (blast dest: meta_strong_designated)
    then show "case index_ok p (metaDBID p) of None \<Rightarrow> False | Some h \<Rightarrow> isMeta h"
      by (simp add: index_ok_def)
  qed
  with one show ?thesis
    by (simp add: meta_invariant_def)
qed

lemma meta_strong_NewDBPool: "meta_strong NewDBPool"
  by (simp add: meta_strong_def NewDBPool_def)

lemma meta_strongI:
  assumes "distinct (map fst (dbs p))"
    and "\<And>k h. map_of (dbs p) k = Some h \<Longrightarrow> isMeta h
           \<Longrightarrow> k = metaDBID p \<and> metaDBID p \<noteq> MinInt32"
    and "metaDBID p \<noteq> MinInt32 \<Longrightarrow> \<exists>h. map_of (dbs p) (metaDBID p) = Some h \<and> isMeta h"
  shows "meta_strong p"
  using assms unfolding meta_strong_def by blast

lemma meta_strong_store_plain:
  assumes s: "meta_strong p" and h0: "\<not> isMeta h0"
    and i: "metaDBID p = MinInt32 \<or> i \<noteq> metaDBID p"
  shows "meta_strong (p\<lparr>dbs := AList.update i h0 (dbs p)\<rparr>)"
proof (rule meta_strongI)
  show "distinct (map fst (dbs (p\<lparr>dbs := AList.update i h0 (dbs p)\<rparr>)))"
    using meta_strong_distinct [OF s] by (simp add: distinct_update)
next
  fix k h
  assume "map_of (dbs (p\<lparr>dbs := AList.update i h0 (dbs p)\<rparr>)) k = Some h" and m: "isMeta h"
  then have "((map_of (dbs p))(i \<mapsto> h0)) k = Some h"
    by (simp add: update_conv')
  with h0 m have "map_of (dbs p) k = Some h"
    by (cases "k = i") auto
  from meta_strong_flagged [OF s this m]
  show "k = metaDBID (p\<lparr>dbs := AList.update i h0 (dbs p)\<rparr>) \<and>
        metaDBID (p\<lparr>dbs := AList.update i h0 (dbs p)\<rparr>) \<noteq> MinInt32"
    by simp
next
  assume "metaDBID (p\<lparr>dbs := AList.update i h0 (dbs p)\<rparr>) \<noteq> MinInt32"
  then have ne: "metaDBID p \<noteq> MinInt32"
    by simp
  with i have "i \<noteq> metaDBID p"
    by blast
  moreover from meta_strong_designated [OF s ne]
  obtain h where "map_of (dbs p) (metaDBID p) = Some h" and "isMeta h"
    by blast
  ultimately
  show "\<exists>h. map_of (dbs (p\<lparr>dbs := AList.update i h0 (dbs p)\<rparr>))
               (metaDBID (p\<lparr>dbs := AList.update i h0 (dbs p)\<rparr>)) = Some h \<and> isMeta h"
    by (simp add: update_conv')
qed

lemma meta_strong_store_meta:
  assumes s: "meta_strong p" and h0: "isMeta h0"
    and none: "metaDBID p = MinInt32" and i: "i \<noteq> MinInt32"
  shows "meta_strong (p\<lparr>dbs := AList.update i h0 (dbs p), metaDBID := i\<rparr>)"
proof (rule meta_strongI)
  show "distinct (map fst (dbs (p\<lparr>dbs := AList.update i h0 (dbs p), metaDBID := i\<rparr>)))"
    using meta_strong_distinct [OF s] by (simp add: distinct_update)
next
  fix k h
  assume "map_of (dbs (p\<lparr>dbs := AList.update i h0 (dbs p), metaDBID := i\<rparr>)) k = Some h"
    and m: "isMeta h"
  then have u: "((map_of (dbs p))(i \<mapsto> h0)) k = Some h"
    by (simp add: update_conv')
  have "k = i"
  proof (rule ccontr)
    assume "k \<noteq> i"
    with u have "map_of (dbs p) k = Some h"
      by simp
    from meta_strong_flagged [OF s this m] none show False
      by simp
  qed
  with i
  show "k = metaDBID (p\<lparr>dbs := AList.update i h0 (dbs p), metaDBID := i\<rparr>) \<and>
        metaDBID (p\<lparr>dbs := AList.update i h0 (dbs p), metaDBID := i\<rparr>) \<noteq> MinInt32"
    by simp
next
  from h0
  show "\<exists>h. map_of (dbs (p\<lparr>dbs := AList.update i h0 (dbs p), metaDBID := i\<rparr>))
               (metaDBID (p\<lparr>dbs := AList.update i h0 (dbs p), metaDBID := i\<rparr>)) = Some h \<and>
             isMeta h"
    by (simp add: update_conv')
qed

lemma meta_strong_Register:
  assumes s: "meta_strong p"
    and g: "call_guard (Call_Register i pth dbT d isMetaDB) p"
    and r: "Register i pth dbT d isMetaDB p = Returns u p1"
  shows "meta_strong p1"
proof (cases isMetaDB)
  case True
  with r have none: "metaDBID p = MinInt32"
    by (simp add: Register_def Let_def split: if_splits)
  from True g have "i \<noteq> MinInt32"
    by simp
  from meta_strong_store_meta [OF s _ none this,
      of "\<lparr>id_w = i, db = d, path = pth, dbType = dbT, isMeta = isMetaDB\<rparr>"] True r none
  show ?thesis
    by (simp add: Register_def Let_def)
next
  case False
  with g have "metaDBID p = MinInt32 \<or> i \<noteq> metaDBID p"
    by simp
  from meta_strong_store_plain [OF s _ this,
      of "\<lparr>id_w = i, db = d, path = pth, dbType = dbT, isMeta = isMetaDB\<rparr>"] False r
  show ?thesis
    by (simp add: Register_def Let_def)
qed

lemma meta_strong_unregistered:
  assumes s: "meta_strong p" and "index_ok p i = None"
  shows "metaDBID p = MinInt32 \<or> i \<noteq> metaDBID p"
proof (cases "metaDBID p = MinInt32")
  case True
  then show ?thesis by simp
next
  case False
  from meta_strong_designated [OF s False] assms(2) show ?thesis
    by (auto simp: index_ok_def)
qed

lemma meta_strong_Open:
  assumes s: "meta_strong p"
    and g: "call_guard (Call_Open dbInfo) p"
    and r: "Open NewLDB dbInfo p w = Returns r (p1, w1)"
    and ne: "r \<noteq> Some ErrMetaDBAlreadyRegistered"
  shows "meta_strong p1"
proof (cases "p1 = p")
  case True
  with s show ?thesis by simp
next
  case False
  let ?h = "\<lparr>id_w = DBInfo_Id dbInfo, db = Some (projr (fst (NewLDB (DbPath dbInfo) w))),
             path = DbPath dbInfo, dbType = DbType dbInfo, isMeta = IsMeta dbInfo\<rparr>"
  from False r have fresh: "index_ok p (DBInfo_Id dbInfo) = None"
    by (simp add: Open_def split: if_splits)
  show ?thesis
  proof (cases "IsMeta dbInfo")
    case True
    with False r ne have none: "metaDBID p = MinInt32"
      by (auto simp: Open_def Let_def split: if_splits prod.splits sum.splits)
    from True g have "DBInfo_Id dbInfo \<noteq> MinInt32"
      by simp
    from meta_strong_store_meta [OF s _ none this, of ?h] True False r none
    show ?thesis
      by (auto simp: Open_def Let_def split: if_splits prod.splits sum.splits)
  next
    case meta: False
    from meta_strong_store_plain [OF s _ meta_strong_unregistered [OF s fresh], of ?h]
      meta False r
    show ?thesis
      by (auto simp: Open_def Let_def split: if_splits prod.splits sum.splits)
  qed
qed

lemma meta_strong_exec_call:
  assumes "meta_strong p"
    and "call_guard c p"
    and "exec_call NewLDB c (p, w) = Returns r (p1, w1)"
    and "r \<noteq> Some ErrMetaDBAlreadyRegistered"
  shows "meta_strong p1"
proof (cases c)
  case (Call_Register i pth dbT d isMetaDB)
  with assms show ?thesis
    by (auto split: outcome.splits dest: meta_strong_Register)
next
  case (Call_Open dbInfo)
  with assms show ?thesis
    by (auto dest: meta_strong_Open)
qed

lemma meta_strong_run_calls:
  assumes "meta_strong (fst s)" and "admissible NewLDB cs s"
  shows "\<exists>p1 w1. run_calls NewLDB cs s = Some (p1, w1) \<and> meta_strong p1"
  using assms
proof (induction cs arbitrary: s)
  case Nil
  then show ?case by (cases s) simp
next
  case (Cons c cs)
  obtain p w where s: "s = (p, w)" by (cases s)
  from Cons.prems(2) obtain r s1 where
    ex: "exec_call NewLDB c s = Returns r s1" and
    r: "r \<noteq> Some ErrMetaDBAlreadyRegistered" and
    adm: "admissible NewLDB cs s1" and
    g: "call_guard c (fst s)"
    by (auto split: outcome.splits)
  obtain p1 w1 where s1: "s1 = (p1, w1)" by (cases s1)
  from Cons.prems(1) g ex r s s1 have "meta_strong p1"
    by (auto dest: meta_strong_exec_call)
  with s1 adm have "\<exists>p2 w2. run_calls NewLDB cs s1 = Some (p2, w2) \<and> meta_strong p2"
    by (intro Cons.IH) simp_all
  with ex show ?case by simp
qed

text \<open>
  C2, as stated, fails. Three histories from \<open>NewDBPool\<close> in which no call panics end in
  a pool that breaks the invariant: after the metadata identifier has been registered
  again without the flag, the designated identifier maps to an unflagged handle; after
  \<open>Open\<close> has returned \<open>ErrMetaDBAlreadyRegistered\<close>, two handles are flagged; after a
  metadata handle has been registered under \<open>math.MinInt32\<close>, a second one is accepted
  and two handles are flagged.
\<close>

theorem meta_invariant_counterexample:
  "map_option (meta_invariant \<circ> fst) (run_calls mem_NewLDB history_overwrite (NewDBPool, world0)) = Some False \<and>
   map_option (meta_invariant \<circ> fst) (run_calls mem_NewLDB history_open_dup (NewDBPool, world0)) = Some False \<and>
   map_option (meta_invariant \<circ> fst) (run_calls mem_NewLDB history_sentinel (NewDBPool, world0)) = Some False"
proof -
  have 1: "run_calls mem_NewLDB history_overwrite (NewDBPool, world0) =
     Some (\<lparr>dbs = [(1, \<lparr>id_w = 1, db = Some 0, path = ''/data/meta'', dbType = ''leveldb'', isMeta = False\<rparr>)], metaDBID = 1\<rparr>, world0)"
    by (simp add: history_overwrite_def Register_def NewDBPool_def MinInt32_def)
  have 2: "run_calls mem_NewLDB history_open_dup (NewDBPool, world0) =
     Some (\<lparr>dbs = [(1, \<lparr>id_w = 1, db = Some 0, path = ''/data/meta'', dbType = ''leveldb'', isMeta = True\<rparr>),
                   (7, \<lparr>id_w = 7, db = Some 2, path = ''/data/meta2'', dbType = ''leveldb'', isMeta = True\<rparr>)], metaDBID = 1\<rparr>, world3)"
    by (simp add: history_open_dup_def Register_def Open_def index_ok_def info7_def NewDBPool_def MinInt32_def mem_NewLDB_def world0_def world3_def)
  have 3: "run_calls mem_NewLDB history_sentinel (NewDBPool, world0) =
     Some (\<lparr>dbs = [(MinInt32, \<lparr>id_w = MinInt32, db = Some 0, path = ''/data/meta'', dbType = ''leveldb'', isMeta = True\<rparr>),
                   (2, \<lparr>id_w = 2, db = Some 1, path = ''/data/meta2'', dbType = ''leveldb'', isMeta = True\<rparr>)], metaDBID = 2\<rparr>, world0)"
  proof -
    have "MinInt32 \<noteq> 2"
      by (simp add: MinInt32_def)
    then show ?thesis
      by (simp add: history_sentinel_def Register_def NewDBPool_def)
  qed
  show ?thesis
    unfolding 1 2 3
    by (simp add: meta_invariant_def meta_handles_def index_ok_def MinInt32_def)
qed

text \<open>
  C2, amended. In every state reached from \<open>NewDBPool\<close> by an admissible history, that
  is by \<open>Register\<close> and \<open>Open\<close> calls of which none panicked, no \<open>Open\<close> returned
  \<open>ErrMetaDBAlreadyRegistered\<close>, no metadata-flagged call used \<open>math.MinInt32\<close> as its
  identifier and no unflagged \<open>Register\<close> overwrote the handle of the designated metadata
  identifier, at most one stored handle has the metadata flag set, and a designated
  metadata identifier maps to a handle whose flag is set. Such a history runs to its end.
\<close>

theorem meta_invariant_admissible:
  assumes "admissible NewLDB cs (NewDBPool, w)"
  shows "\<exists>p1 w1. run_calls NewLDB cs (NewDBPool, w) = Some (p1, w1) \<and> meta_invariant p1"
  using meta_strong_run_calls [of "(NewDBPool, w)" NewLDB cs] assms
  by (auto simp: meta_strong_NewDBPool dest: meta_strong_invariant)

theorem meta_invariant_admissible_witness:
  "admissible mem_NewLDB history_ok (NewDBPool, world0) \<and>
   (\<exists>p1 w1. run_calls mem_NewLDB history_ok (NewDBPool, world0) = Some (p1, w1) \<and> meta_invariant p1)"
proof -
  have h: "admissible mem_NewLDB history_ok (NewDBPool, world0)"
    by (simp add: history_ok_def Register_def Open_def index_ok_def info7_def NewDBPool_def MinInt32_def mem_NewLDB_def world0_def)
  show ?thesis
    using h meta_invariant_admissible [OF h] by simp
qed

section \<open>Properties of the batch protocol\<close>

text \<open>The definitions that a run of the engine in memory and of the wire format unfolds.\<close>

lemmas mem_defs = mem_engine_def mem_Write_def mem_Load_def mem_Dump_def mem_frame_def
  mem_NewBatch_def mem_Put_def mem_Get_def

lemmas pb_defs = pb_codec_def pb_Marshal_def pb_Unmarshal_def pb_string_def pb_int64_def
  pb_enum_def pb_tag_def put_uvarint.simps valid_utf8_def utf8_width_def cont_byte_def
  pb_set_varint_def pb_set_string_def zero_BlockInfo_def pb_decode_error_def
  pb_utf8_error_def Let_def char_of_def bit_0

subsection \<open>Writing batches in order\<close>

lemma commit_all_Cons:
  "commit_all E (item # batchs) w = commit_all E batchs (snd (batch_Write E (B item) w))"
  by (simp add: commit_all_def)

lemma WriteBatchs_committed_prefix:
  assumes "\<forall>k<length pre. fst (batch_Write E (B (pre ! k)) (commit_all E (take k pre) w)) = None"
  shows "WriteBatchs E (pre @ rest) w = WriteBatchs E rest (commit_all E pre w)"
  using assms
proof (induction pre arbitrary: w)
  case Nil
  then show ?case by (simp add: commit_all_def)
next
  case (Cons x xs)
  from Cons.prems have "fst (batch_Write E (B ((x # xs) ! 0)) (commit_all E (take 0 (x # xs)) w)) = None"
    by blast
  then have first: "fst (batch_Write E (B x) w) = None"
    by (simp add: commit_all_def)
  have "\<forall>k<length xs. fst (batch_Write E (B (xs ! k))
          (commit_all E (take k xs) (snd (batch_Write E (B x) w)))) = None"
  proof (intro allI impI)
    fix k assume "k < length xs"
    then have "Suc k < length (x # xs)" by simp
    with Cons.prems
    have "fst (batch_Write E (B ((x # xs) ! Suc k)) (commit_all E (take (Suc k) (x # xs)) w)) = None"
      by blast
    then show "fst (batch_Write E (B (xs ! k))
          (commit_all E (take k xs) (snd (batch_Write E (B x) w)))) = None"
      by (simp add: commit_all_Cons)
  qed
  then have "WriteBatchs E (xs @ rest) (snd (batch_Write E (B x) w)) =
             WriteBatchs E rest (commit_all E xs (snd (batch_Write E (B x) w)))"
    by (rule Cons.IH)
  with first show ?case
    by (cases "batch_Write E (B x) w") (simp add: commit_all_Cons)
qed

lemma WriteBatchs_all_committed:
  assumes "\<forall>k<length batchs.
             fst (batch_Write E (B (batchs ! k)) (commit_all E (take k batchs) w)) = None"
  shows "WriteBatchs E batchs w = Returns None (commit_all E batchs w)"
  using WriteBatchs_committed_prefix [OF assms, of "[]"] by simp

text \<open>
  C6. For every list of batches \<open>WriteBatchs\<close> writes the batches in input order and
  returns at the first write that fails. If every write succeeds, each in the state that
  the writes before it have left, the call returns nil and leaves the state in which all
  batches are committed in order. If every write of the batches \<open>pre\<close> succeeds and the
  write of \<open>item\<close> fails with \<open>err\<close> in the state \<open>commit_all E pre w\<close>, the call on
  \<open>pre @ item # post\<close> returns \<open>err\<close>. The state it leaves is the one that the
  failing \<open>Write\<close> returned on top of the committed batches of \<open>pre\<close>: it does not
  depend on \<open>post\<close>, of which no batch is written.
\<close>

theorem WriteBatchs_in_order_until_first_failure:
  "((\<forall>k<length batchs.
        fst (batch_Write E (B (batchs ! k)) (commit_all E (take k batchs) w)) = None) \<longrightarrow>
      WriteBatchs E batchs w = Returns None (commit_all E batchs w)) \<and>
   ((\<forall>k<length pre.
        fst (batch_Write E (B (pre ! k)) (commit_all E (take k pre) w)) = None) \<longrightarrow>
    batch_Write E (B item) (commit_all E pre w) = (Some err, w1) \<longrightarrow>
      WriteBatchs E (pre @ item # post) w = Returns (Some err) w1)"
proof (intro conjI impI)
  assume "\<forall>k<length batchs.
        fst (batch_Write E (B (batchs ! k)) (commit_all E (take k batchs) w)) = None"
  then show "WriteBatchs E batchs w = Returns None (commit_all E batchs w)"
    by (rule WriteBatchs_all_committed)
next
  assume ok: "\<forall>k<length pre.
        fst (batch_Write E (B (pre ! k)) (commit_all E (take k pre) w)) = None"
    and bad: "batch_Write E (B item) (commit_all E pre w) = (Some err, w1)"
  from WriteBatchs_committed_prefix [OF ok, of "item # post"] bad
  show "WriteBatchs E (pre @ item # post) w = Returns (Some err) w1"
    by simp
qed

theorem WriteBatchs_in_order_until_first_failure_witness:
  "fst (batch_Write mem_engine (B batch_b) world_closed) = None \<and>
   fst (batch_Write mem_engine (B batch_d) (commit_all mem_engine [batch_b] world_closed)) = None \<and>
   WriteBatchs mem_engine [batch_b, batch_d] world_closed =
     Returns None \<lparr>stores = [(0, [([3], [9]), ([5, 6], [])]), (1, [])], closed = [1]\<rparr> \<and>
   batch_Write mem_engine (B batch_a) (commit_all mem_engine [batch_b] world_closed) =
     (Some (ErrOther ''leveldb: closed''),
      \<lparr>stores = [(0, [([3], [4]), ([5, 6], [])]), (1, [])], closed = [1]\<rparr>) \<and>
   WriteBatchs mem_engine ([batch_b] @ batch_a # [batch_d]) world_closed =
     Returns (Some (ErrOther ''leveldb: closed''))
       \<lparr>stores = [(0, [([3], [4]), ([5, 6], [])]), (1, [])], closed = [1]\<rparr>"
proof -
  have b: "batch_Write mem_engine (B batch_b) world_closed =
             (None, \<lparr>stores = [(0, [([3], [4]), ([5, 6], [])]), (1, [])], closed = [1]\<rparr>)"
    by (simp add: mem_defs batch_b_def world_closed_def)
  then have c: "commit_all mem_engine [batch_b] world_closed =
             \<lparr>stores = [(0, [([3], [4]), ([5, 6], [])]), (1, [])], closed = [1]\<rparr>"
    by (simp add: commit_all_def)
  have d: "batch_Write mem_engine (B batch_d) (commit_all mem_engine [batch_b] world_closed) =
             (None, \<lparr>stores = [(0, [([3], [9]), ([5, 6], [])]), (1, [])], closed = [1]\<rparr>)"
    unfolding c by (simp add: mem_defs batch_d_def)
  have a: "batch_Write mem_engine (B batch_a) (commit_all mem_engine [batch_b] world_closed) =
     (Some (ErrOther ''leveldb: closed''),
      \<lparr>stores = [(0, [([3], [4]), ([5, 6], [])]), (1, [])], closed = [1]\<rparr>)"
    unfolding c by (simp add: mem_defs batch_a_def)
  have all2: "\<forall>k<length [batch_b, batch_d]. fst (batch_Write mem_engine (B ([batch_b, batch_d] ! k))
        (commit_all mem_engine (take k [batch_b, batch_d]) world_closed)) = None"
  proof (intro allI impI)
    fix k assume "k < length [batch_b, batch_d]"
    then have "k = 0 \<or> k = 1" by auto
    then show "fst (batch_Write mem_engine (B ([batch_b, batch_d] ! k))
        (commit_all mem_engine (take k [batch_b, batch_d]) world_closed)) = None"
      using b d by (auto simp: commit_all_def)
  qed
  have all1: "\<forall>k<length [batch_b]. fst (batch_Write mem_engine (B ([batch_b] ! k))
        (commit_all mem_engine (take k [batch_b]) world_closed)) = None"
    using b by (simp add: commit_all_def)
  have e: "commit_all mem_engine [batch_b, batch_d] world_closed =
             \<lparr>stores = [(0, [([3], [9]), ([5, 6], [])]), (1, [])], closed = [1]\<rparr>"
    using b d c by (simp add: commit_all_def)
  show ?thesis
    using b d a all1 all2 e
      WriteBatchs_in_order_until_first_failure [where E = mem_engine and batchs = "[batch_b, batch_d]"
        and w = world_closed and pre = "[batch_b]" and item = batch_a and post = "[batch_d]"
        and err = "ErrOther ''leveldb: closed''"
        and ?w1.0 = "\<lparr>stores = [(0, [([3], [4]), ([5, 6], [])]), (1, [])], closed = [1]\<rparr>"]
    by simp
qed

subsection \<open>Serialising and applying\<close>

lemma Marshal_loop_map:
  "Marshal_loop E batchs batchItems =
     batchItems @ map (\<lambda>item. \<lparr>BatchItem_Id = ID item, Data = batch_Dump E (B item)\<rparr>) batchs"
  by (induction batchs arbitrary: batchItems) simp_all

lemma Marshal_map:
  "Marshal E batchs =
     (map (\<lambda>item. \<lparr>BatchItem_Id = ID item, Data = batch_Dump E (B item)\<rparr>) batchs, None)"
  by (simp add: Marshal_def Marshal_loop_map)

lemma WriteBatchItems_addressed_step:
  assumes "addressed E p item"
  shows "WriteBatchItems E p (\<lparr>BatchItem_Id = ID item, Data = batch_Dump E (B item)\<rparr> # rest) w =
           (case batch_Write E (B item) w of
              (Some err, w1) \<Rightarrow> Returns (Some err) w1
            | (None, w1) \<Rightarrow> WriteBatchItems E p rest w1)"
proof -
  from assms obtain h d where h: "map_of (dbs p) (ID item) = Some h" and d: "db h = Some d"
    and l: "load_inverts_dump E d (B item)"
    by (auto simp: addressed_def index_ok_def split: option.splits)
  from l obtain b1 where "batch_Load E (db_NewBatch E d) (batch_Dump E (B item)) = (None, b1)"
    and "batch_Write E b1 = batch_Write E (B item)"
    by (auto simp: load_inverts_dump_def split: prod.splits option.splits)
  with h d show ?thesis
    by (simp add: index_def)
qed

lemma WriteBatchItems_map_dump:
  assumes "\<forall>item \<in> set batchs. addressed E p item"
  shows "WriteBatchItems E p
           (map (\<lambda>item. \<lparr>BatchItem_Id = ID item, Data = batch_Dump E (B item)\<rparr>) batchs) w =
         WriteBatchs E batchs w"
  using assms
proof (induction batchs arbitrary: w)
  case Nil
  then show ?case by simp
next
  case (Cons item batchs)
  then have a: "addressed E p item" and IH: "\<And>w1. WriteBatchItems E p
           (map (\<lambda>item. \<lparr>BatchItem_Id = ID item, Data = batch_Dump E (B item)\<rparr>) batchs) w1 =
         WriteBatchs E batchs w1"
    by simp_all
  have "WriteBatchItems E p
          (map (\<lambda>item. \<lparr>BatchItem_Id = ID item, Data = batch_Dump E (B item)\<rparr>) (item # batchs)) w =
        (case batch_Write E (B item) w of
           (Some err, w1) \<Rightarrow> Returns (Some err) w1
         | (None, w1) \<Rightarrow> WriteBatchItems E p
             (map (\<lambda>item. \<lparr>BatchItem_Id = ID item, Data = batch_Dump E (B item)\<rparr>) batchs) w1)"
    unfolding list.map by (rule WriteBatchItems_addressed_step [OF a])
  also have "\<dots> = WriteBatchs E (item # batchs) w"
    by (simp add: IH split: prod.splits option.splits)
  finally show ?case .
qed

text \<open>
  C3. For batches that are each addressed to a store registered in the pool (the
  identifier is a key of the pool, the handle there holds the store of the batch, and
  \<open>Load\<close> inverts \<open>Dump\<close> on the batch), \<open>Marshal\<close> returns no error, and
  \<open>WriteBatchItems\<close> on the items it returns has the outcome of \<open>WriteBatchs\<close> on the
  batches: the same error or none, and the same state of the stores. The list of one batch
  is the case of the specification.
\<close>

theorem Marshal_then_WriteBatchItems:
  assumes "\<forall>item \<in> set batchs. addressed E p item"
  shows "snd (Marshal E batchs) = None \<and>
         WriteBatchItems E p (fst (Marshal E batchs)) w = WriteBatchs E batchs w"
  using WriteBatchItems_map_dump [OF assms] by (simp add: Marshal_map)

theorem Marshal_then_WriteBatchItems_witness:
  "addressed mem_engine pool13 batch_a \<and> addressed mem_engine pool13 batch_b \<and>
   snd (Marshal mem_engine [batch_a, batch_b]) = None \<and>
   WriteBatchItems mem_engine pool13 (fst (Marshal mem_engine [batch_a, batch_b])) world0 =
     Returns None \<lparr>stores = [(0, [([3], [4]), ([5, 6], [])]), (1, [([1], [2])])], closed = []\<rparr> \<and>
   WriteBatchs mem_engine [batch_a, batch_b] world0 =
     Returns None \<lparr>stores = [(0, [([3], [4]), ([5, 6], [])]), (1, [([1], [2])])], closed = []\<rparr>"
proof -
  have h: "\<forall>item \<in> set [batch_a, batch_b]. addressed mem_engine pool13 item"
    by (simp add: addressed_def load_inverts_dump_def index_ok_def pool13_def handle_meta_def
          handle_data_def batch_a_def batch_b_def mem_defs)
  have w: "WriteBatchs mem_engine [batch_a, batch_b] world0 =
     Returns None \<lparr>stores = [(0, [([3], [4]), ([5, 6], [])]), (1, [([1], [2])])], closed = []\<rparr>"
    by (simp add: batch_a_def batch_b_def mem_defs world0_def)
  from h have a: "addressed mem_engine pool13 batch_a" "addressed mem_engine pool13 batch_b"
    by simp_all
  show ?thesis
    using a w Marshal_then_WriteBatchItems [OF h, of world0]
    by simp
qed

subsection \<open>An item for an unregistered store\<close>

lemma WriteBatchItems_unregistered:
  assumes "index_ok p (BatchItem_Id item) = None"
  shows "WriteBatchItems E p (item # rest) w = Panics nil_dereference w"
  using assms by (simp add: index_def index_ok_def zero_dbWrap_def)

text \<open>
  The items before an unregistered one are applied in order, and the call panics at the
  unregistered one in the state they have left; nothing after it is applied.
\<close>

lemma WriteBatchItems_applied_prefix:
  assumes "WriteBatchItems E p pre w = Returns None w1"
  shows "WriteBatchItems E p (pre @ rest) w = WriteBatchItems E p rest w1"
  using assms
proof (induction pre arbitrary: w)
  case Nil
  then show ?case by simp
next
  case (Cons item pre)
  from Cons.prems obtain d batch w2 where
    d: "db (index p (BatchItem_Id item)) = Some d" and
    l: "batch_Load E (db_NewBatch E d) (Data item) = (None, batch)" and
    wr: "batch_Write E batch w = (None, w2)" and
    r: "WriteBatchItems E p pre w2 = Returns None w1"
    by (auto split: option.splits prod.splits)
  from Cons.IH [OF r] d l wr show ?case
    by simp
qed

lemma WriteBatchItems_unregistered_at:
  assumes "WriteBatchItems E p pre w = Returns None w1"
    and "index_ok p (BatchItem_Id item) = None"
  shows "WriteBatchItems E p (pre @ item # post) w = Panics nil_dereference w1"
  using WriteBatchItems_applied_prefix [OF assms(1), of "item # post"]
    WriteBatchItems_unregistered [OF assms(2), of E post w1]
  by simp

text \<open>
  C1. The claim asks for a not-found error when an item targets an identifier that is not
  registered. \<open>WriteBatchItems\<close> panics there instead: of three items whose second is
  addressed to the unregistered identifier 9, the first is written to its store, the
  second ends the call with a nil dereference, and the third is not applied. \<open>GetDB\<close>,
  which tests the \<open>ok\<close> result of the map index, returns \<open>ErrNotFound\<close> for the same
  identifier.
\<close>

theorem WriteBatchItems_unregistered_panics:
  "WriteBatchItems mem_engine pool13
     [\<lparr>BatchItem_Id = 3, Data = batch_Dump mem_engine (B batch_a)\<rparr>,
      \<lparr>BatchItem_Id = 9, Data = batch_Dump mem_engine (B batch_b)\<rparr>,
      \<lparr>BatchItem_Id = 3, Data = batch_Dump mem_engine (B batch_c)\<rparr>] world0 =
   Panics nil_dereference \<lparr>stores = [(0, []), (1, [([1], [2])])], closed = []\<rparr> \<and>
   GetDB pool13 9 = (None, Some ErrNotFound)"
  by (simp add: index_def index_ok_def GetDB_def zero_dbWrap_def pool13_def handle_meta_def handle_data_def
        batch_a_def batch_b_def batch_c_def mem_defs world0_def)

section \<open>Properties of the checkpoint protocol\<close>

lemma mem_engine_reads_back_writes: "reads_back_writes mem_engine"
  unfolding reads_back_writes_def
proof (intro allI impI)
  fix d k v b and w w1 :: mem_world
  assume put: "batch_Put mem_engine (db_NewBatch mem_engine d) k v = (None, b)"
    and wr: "batch_Write mem_engine b w = (None, w1)"
  from put have b: "b = (d, [(k, v)])"
    by (auto simp: mem_engine_def mem_Put_def mem_NewBatch_def)
  from wr b obtain kvs where "map_of (stores w) d = Some kvs"
    and "w1 = w\<lparr>stores := AList.update d (AList.update k v kvs) (stores w)\<rparr>"
    by (auto simp: mem_engine_def mem_Write_def split: option.splits if_splits)
  then show "db_Get mem_engine d k w1 = (v, None)"
    by (simp add: mem_engine_def mem_Get_def update_conv')
qed

lemma GetBlockInfo_absent:
  assumes "metaDBID p \<noteq> MinInt32" and "db (index p (metaDBID p)) = Some d"
    and "snd (db_Get E d LastBlockInfo w) = Some ErrNotFound"
  shows "GetBlockInfo E C p w = Returns (Some not_started, None) ()"
  using assms by (cases "db_Get E d LastBlockInfo w") (simp add: GetBlockInfo_def)

lemma GetBlockInfo_stored:
  assumes "metaDBID p \<noteq> MinInt32" and "db (index p (metaDBID p)) = Some d"
    and "db_Get E d LastBlockInfo w = (buf, None)" and "buf \<noteq> []"
  shows "GetBlockInfo E C p w =
           (case proto_Unmarshal C buf not_started of
              (Some e, header) \<Rightarrow> Returns (None, None) ()
            | (None, header) \<Rightarrow> Returns (Some header, None) ())"
  using assms by (simp add: GetBlockInfo_def)

lemma WriteBlockInfo_success:
  assumes "WriteBlockInfo E C p header w = Returns None w1"
  shows "metaDBID p \<noteq> MinInt32 \<and> snd (proto_Marshal C header) = None \<and>
         (\<exists>d b. db (index p (metaDBID p)) = Some d \<and>
                batch_Put E (db_NewBatch E d) LastBlockInfo (fst (proto_Marshal C header)) = (None, b) \<and>
                batch_Write E b w = (None, w1))"
  using assms
  by (auto simp: WriteBlockInfo_def split: if_splits prod.splits option.splits)

lemma pool13_meta: "metaDBID pool13 \<noteq> MinInt32" "db (index pool13 (metaDBID pool13)) = Some 0"
  by (simp_all add: pool13_def MinInt32_def index_def handle_meta_def)

lemma checkpoint42_bytes:
  "proto_Marshal pb_codec checkpoint42 =
     ([10, 3, 101, 116, 104, 18, 4, 112, 114, 111, 100, 24, 42, 34, 4, 48, 120,
       97, 98, 40, 7, 48, 1, 56, 172, 2], None)"
  by (simp add: checkpoint42_def BlockInfo_DATA_def pb_defs)

lemma checkpoint42_back:
  "proto_Unmarshal pb_codec [10, 3, 101, 116, 104, 18, 4, 112, 114, 111, 100, 24, 42, 34, 4, 48, 120,
       97, 98, 40, 7, 48, 1, 56, 172, 2] not_started = (None, checkpoint42)"
  by (simp add: checkpoint42_def BlockInfo_DATA_def pb_defs)

lemma unknown_group_skipped:
  "proto_Unmarshal pb_codec [11, 12, 24, 42] not_started = (None, zero_BlockInfo\<lparr>BlockNum := 42\<rparr>)"
  by (simp add: pb_codec_def pb_Unmarshal_def pb_set_varint_def zero_BlockInfo_def)

lemma invalid_utf8_marshal:
  "proto_Marshal pb_codec (not_started\<lparr>Env := [CHR 0xFF]\<rparr>) = ([18, 1, 255], Some pb_utf8_error)"
  by (simp add: not_started_def pb_codec_def pb_Marshal_def pb_string_def pb_tag_def
        put_uvarint.simps valid_utf8_def utf8_width_def Let_def)

lemma LastBlockInfo_bytes: "LastBlockInfo = [114, 112, 108, 95, 108, 97, 115, 116, 95, 98, 107]"
  by (simp add: LastBlockInfo_def)

text \<open>
  C4, as stated, fails. The checkpoint whose fields are all zero serialises to no bytes.
  \<open>WriteBlockInfo\<close> stores the empty value and succeeds; \<open>GetBlockInfo\<close> then takes the
  branch \<open>len(lastMsgHeadBuf) == 0\<close> and returns the record with block number -1 and
  message offset -1, which is not the record that was written.
\<close>

theorem zero_checkpoint_counterexample:
  "WriteBlockInfo mem_engine pb_codec pool13 zero_BlockInfo world0 =
     Returns None world_zero_checkpoint \<and>
   GetBlockInfo mem_engine pb_codec pool13 world_zero_checkpoint =
     Returns (Some not_started, None) () \<and>
   not_started \<noteq> zero_BlockInfo"
proof -
  have m: "proto_Marshal pb_codec zero_BlockInfo = ([], None)"
    by (simp add: pb_codec_def pb_Marshal_def pb_string_def pb_int64_def pb_enum_def
          valid_utf8_def zero_BlockInfo_def Let_def)
  have 1: "WriteBlockInfo mem_engine pb_codec pool13 zero_BlockInfo world0 =
     Returns None world_zero_checkpoint"
    by (simp add: WriteBlockInfo_def pool13_meta m mem_defs world0_def world_zero_checkpoint_def)
  have 2: "GetBlockInfo mem_engine pb_codec pool13 world_zero_checkpoint =
     Returns (Some not_started, None) ()"
    by (simp add: GetBlockInfo_def pool13_meta mem_defs world_zero_checkpoint_def)
  have 3: "not_started \<noteq> zero_BlockInfo"
    by (simp add: not_started_def zero_BlockInfo_def)
  from 1 2 3 show ?thesis by simp
qed

text \<open>
  C4, amended. With a metadata store designated: when the key is absent, \<open>GetBlockInfo\<close>
  returns the record with block number -1 and message offset -1 and no error; and after
  a successful \<open>WriteBlockInfo\<close> of a record whose serialisation is not empty,
  \<open>GetBlockInfo\<close> returns exactly that record and no error, given that the store reads
  back what was written and that \<open>Unmarshal\<close> inverts \<open>Marshal\<close> on the record.
\<close>

theorem checkpoint_read_after_write:
  assumes "metaDBID p \<noteq> MinInt32" and "db (index p (metaDBID p)) = Some d"
  shows "(snd (db_Get E d LastBlockInfo w) = Some ErrNotFound \<longrightarrow>
            GetBlockInfo E C p w = Returns (Some not_started, None) () \<and>
            BlockNum not_started = - 1 \<and> MsgOffset not_started = - 1) \<and>
         (reads_back_writes E \<longrightarrow>
          WriteBlockInfo E C p header w = Returns None w1 \<longrightarrow>
          fst (proto_Marshal C header) \<noteq> [] \<longrightarrow>
          proto_Unmarshal C (fst (proto_Marshal C header)) not_started = (None, header) \<longrightarrow>
            GetBlockInfo E C p w1 = Returns (Some header, None) ())"
proof (intro conjI impI)
  assume "snd (db_Get E d LastBlockInfo w) = Some ErrNotFound"
  with assms show "GetBlockInfo E C p w = Returns (Some not_started, None) ()"
    by (rule GetBlockInfo_absent)
next
  show "BlockNum not_started = - 1" and "MsgOffset not_started = - 1"
    by (simp_all add: not_started_def)
next
  assume rb: "reads_back_writes E"
    and wr: "WriteBlockInfo E C p header w = Returns None w1"
    and ne: "fst (proto_Marshal C header) \<noteq> []"
    and rt: "proto_Unmarshal C (fst (proto_Marshal C header)) not_started = (None, header)"
  from WriteBlockInfo_success [OF wr] assms(2) obtain b where
    "batch_Put E (db_NewBatch E d) LastBlockInfo (fst (proto_Marshal C header)) = (None, b)"
    and "batch_Write E b w = (None, w1)"
    by auto
  with rb have "db_Get E d LastBlockInfo w1 = (fst (proto_Marshal C header), None)"
    unfolding reads_back_writes_def by blast
  from GetBlockInfo_stored [OF assms this ne, of C] rt
  show "GetBlockInfo E C p w1 = Returns (Some header, None) ()"
    by simp
qed

theorem checkpoint_read_after_write_witness:
  "metaDBID pool13 \<noteq> MinInt32 \<and> db (index pool13 (metaDBID pool13)) = Some 0 \<and>
   snd (db_Get mem_engine 0 LastBlockInfo world0) = Some ErrNotFound \<and>
   GetBlockInfo mem_engine pb_codec pool13 world0 = Returns (Some not_started, None) () \<and>
   reads_back_writes mem_engine \<and>
   WriteBlockInfo mem_engine pb_codec pool13 checkpoint42 world0 = Returns None world_checkpoint42 \<and>
   fst (proto_Marshal pb_codec checkpoint42) \<noteq> [] \<and>
   proto_Unmarshal pb_codec (fst (proto_Marshal pb_codec checkpoint42)) not_started =
     (None, checkpoint42) \<and>
   GetBlockInfo mem_engine pb_codec pool13 world_checkpoint42 = Returns (Some checkpoint42, None) ()"
proof -
  have h3: "snd (db_Get mem_engine 0 LastBlockInfo world0) = Some ErrNotFound"
    by (simp add: mem_defs world0_def)
  have h5: "WriteBlockInfo mem_engine pb_codec pool13 checkpoint42 world0 =
              Returns None world_checkpoint42"
    by (simp add: WriteBlockInfo_def pool13_meta checkpoint42_bytes mem_defs world0_def
          world_checkpoint42_def)
  have h6: "fst (proto_Marshal pb_codec checkpoint42) \<noteq> []"
    by (simp add: checkpoint42_bytes)
  have h7: "proto_Unmarshal pb_codec (fst (proto_Marshal pb_codec checkpoint42)) not_started =
              (None, checkpoint42)"
    by (simp add: checkpoint42_bytes checkpoint42_back)
  show ?thesis
    using pool13_meta h3 h5 h6 h7 mem_engine_reads_back_writes
      checkpoint_read_after_write [OF pool13_meta, of mem_engine world0 pb_codec checkpoint42
        world_checkpoint42]
    by simp
qed

text \<open>
  C5, as stated, fails. With a byte under the checkpoint key that is no message,
  \<open>GetBlockInfo\<close> returns the nil record and the nil error; with the key absent it
  returns the record with block number -1 and message offset -1. The two results differ.
\<close>

theorem corrupt_checkpoint_counterexample:
  "GetBlockInfo mem_engine pb_codec pool13 world_corrupt = Returns (None, None) () \<and>
   GetBlockInfo mem_engine pb_codec pool13 world0 = Returns (Some not_started, None) () \<and>
   GetBlockInfo mem_engine pb_codec pool13 world_corrupt \<noteq>
     GetBlockInfo mem_engine pb_codec pool13 world0"
proof -
  have 1: "GetBlockInfo mem_engine pb_codec pool13 world_corrupt = Returns (None, None) ()"
    by (simp add: GetBlockInfo_def pool13_meta mem_defs world_corrupt_def pb_codec_def
          pb_Unmarshal_def)
  have 2: "GetBlockInfo mem_engine pb_codec pool13 world0 = Returns (Some not_started, None) ()"
    by (simp add: GetBlockInfo_def pool13_meta mem_defs world0_def)
  from 1 2 show ?thesis by simp
qed

text \<open>
  C5, amended. When the bytes stored under the checkpoint key are not empty and fail to
  deserialise, \<open>GetBlockInfo\<close> returns neither a record nor an error. This result
  differs from the one for an absent key, which is the record with block number -1 and
  message offset -1.
\<close>

theorem corrupt_checkpoint_reads_nil:
  assumes "metaDBID p \<noteq> MinInt32" and "db (index p (metaDBID p)) = Some d"
    and "db_Get E d LastBlockInfo w = (buf, None)" and "buf \<noteq> []"
    and "fst (proto_Unmarshal C buf not_started) = Some e"
    and "snd (db_Get E d LastBlockInfo w0) = Some ErrNotFound"
  shows "GetBlockInfo E C p w = Returns (None, None) () \<and>
         GetBlockInfo E C p w0 = Returns (Some not_started, None) () \<and>
         GetBlockInfo E C p w \<noteq> GetBlockInfo E C p w0"
proof -
  from GetBlockInfo_stored [OF assms(1-4), of C] assms(5)
  have "GetBlockInfo E C p w = Returns (None, None) ()"
    by (cases "proto_Unmarshal C buf not_started") simp
  moreover from assms(1,2,6) have "GetBlockInfo E C p w0 = Returns (Some not_started, None) ()"
    by (rule GetBlockInfo_absent)
  ultimately show ?thesis by simp
qed

theorem corrupt_checkpoint_reads_nil_witness:
  "metaDBID pool13 \<noteq> MinInt32 \<and> db (index pool13 (metaDBID pool13)) = Some 0 \<and>
   db_Get mem_engine 0 LastBlockInfo world_corrupt = ([255], None) \<and> [255 :: 8 word] \<noteq> [] \<and>
   fst (proto_Unmarshal pb_codec [255] not_started) =
     Some (ErrOther ''proto: cannot parse invalid wire-format data'') \<and>
   snd (db_Get mem_engine 0 LastBlockInfo world0) = Some ErrNotFound \<and>
   GetBlockInfo mem_engine pb_codec pool13 world_corrupt = Returns (None, None) () \<and>
   GetBlockInfo mem_engine pb_codec pool13 world0 = Returns (Some not_started, None) ()"
proof -
  have h3: "db_Get mem_engine 0 LastBlockInfo world_corrupt = ([255], None)"
    by (simp add: mem_defs world_corrupt_def)
  have h4: "[255 :: 8 word] \<noteq> []"
    by simp
  have h5: "fst (proto_Unmarshal pb_codec [255] not_started) =
              Some (ErrOther ''proto: cannot parse invalid wire-format data'')"
    by (simp add: pb_codec_def pb_Unmarshal_def pb_decode_error_def)
  have h6: "snd (db_Get mem_engine 0 LastBlockInfo world0) = Some ErrNotFound"
    by (simp add: mem_defs world0_def)
  show ?thesis
    using pool13_meta h3 h5 h6
      corrupt_checkpoint_reads_nil [OF pool13_meta h3 h4 h5 h6]
    by simp
qed

end
